theory Spec2Isabelle
  imports Complex_Main "HOL-Library.Sublist"
begin

section \<open>Data model of epss-enrich.go\<close>

text \<open>
  Values held in a Go \<^verbatim>\<open>interface{}\<close> after \<^verbatim>\<open>json.Unmarshal\<close>. A finding's body is a
  \<^verbatim>\<open>map[string]interface{}\<close>, modelled as a map from keys to such values.
\<close>

datatype json =
    JNull
  | JBool bool
  | JNumber int
  | JString string
  | JArray "json list"
  | JObject "(string \<times> json) list"

text \<open>
  \<^verbatim>\<open>type finding_data struct\<close>. The type of the two scores (\<^verbatim>\<open>float64\<close>) is the parameter
  \<open>'f\<close>; the field \<^verbatim>\<open>id\<close> is named \<open>id_f\<close>, since \<open>id\<close> is the identity function of HOL.
\<close>

record 'f finding_data =
  selector :: int
  id_f :: int
  cve :: string
  epss_score :: 'f
  epss_percentile :: 'f
  body :: "string \<rightharpoonup> json"

text \<open>
  \<^verbatim>\<open>type epss_data struct\<close>; its field \<^verbatim>\<open>cve\<close> is named \<open>cve_e\<close> to keep it apart from the
  field of \<open>finding_data\<close>.
\<close>

record 'f epss_data =
  cve_e :: string
  score :: 'f
  percentile :: 'f

record flags =
  authToken :: string
  ip :: string
  port :: int

text \<open>
  Every way the program stops without returning: a \<^verbatim>\<open>log.Fatal\<close> call, named after the
  statement that failed, or a run-time panic.
\<close>

datatype failure =
    Fatal_Open
  | Fatal_ReadFrom
  | Fatal_SkipFirstLine
  | Fatal_CsvRead
  | Fatal_ParseScore
  | Fatal_ParsePercentile
  | Fatal_Count
  | Fatal_VulnerabilityId
  | Fatal_Id
  | Fatal_Object
  | Fatal_Marshal
  | Fatal_NewRequest
  | Fatal_Do
  | Panic_IndexOutOfRange
  | Panic_SliceBounds

section \<open>Strings\<close>

text \<open>\<^verbatim>\<open>strings.Index\<close>: the index of the first occurrence of \<open>sub\<close>, or \<open>-1\<close>.\<close>

fun Index :: "string \<Rightarrow> string \<Rightarrow> int" where
  "Index [] sub = (if sub = [] then 0 else - 1)"
| "Index (c # s) sub =
     (if prefix sub (c # s) then 0
      else (let i = Index s sub in if i = - 1 then - 1 else i + 1))"

text \<open>\<^verbatim>\<open>strings.Contains(s, substr)\<close> is \<^verbatim>\<open>Index(s, substr) >= 0\<close>.\<close>

definition Contains :: "string \<Rightarrow> string \<Rightarrow> bool" where
  "Contains s substr = (0 \<le> Index s substr)"

definition newline :: char where
  "newline = CHR 0x0A"

section \<open>LoadEpssData\<close>

text \<open>
  The file system, as far as \<^verbatim>\<open>os.Open\<close> and \<^verbatim>\<open>buf.ReadFrom\<close> see it: a path has no file,
  a file that cannot be read, or a file with its contents.
\<close>

datatype file_state = Unreadable | Contents string

text \<open>
  One call of \<^verbatim>\<open>r.Read()\<close> that is not \<^verbatim>\<open>io.EOF\<close> returns a record or an error. The reader
  of \<^verbatim>\<open>encoding/csv\<close> is a parameter of the model: \<open>NewReader s\<close> is the list of the
  outcomes of the successive calls of \<^verbatim>\<open>Read\<close> on the text \<open>s\<close>, up to \<^verbatim>\<open>io.EOF\<close>.
  \<^verbatim>\<open>strconv.ParseFloat\<close> is the parameter \<open>ParseFloat\<close>, \<open>None\<close> being its error.
\<close>

datatype csv_read = Record "string list" | ReadError

text \<open>
  The body of the \<^verbatim>\<open>for\<close> loop, lines 230 to 254. Indexing a record that is too short panics.
\<close>

fun read_loop ::
  "(string \<Rightarrow> 'f option) \<Rightarrow> csv_read list \<Rightarrow> 'f epss_data list \<Rightarrow> failure + 'f epss_data list"
where
  "read_loop ParseFloat [] epss_list = Inr epss_list"
| "read_loop ParseFloat (ReadError # rs) epss_list = Inl Fatal_CsvRead"
| "read_loop ParseFloat (Record row # rs) epss_list =
     (if length row \<le> 0 then Inl Panic_IndexOutOfRange
      else if length row \<le> 1 then Inl Panic_IndexOutOfRange
      else (case ParseFloat (row ! 1) of
          None \<Rightarrow> Inl Fatal_ParseScore
        | Some score_temp \<Rightarrow>
            if length row \<le> 2 then Inl Panic_IndexOutOfRange
            else (case ParseFloat (row ! 2) of
                None \<Rightarrow> Inl Fatal_ParsePercentile
              | Some percentile_temp \<Rightarrow>
                  read_loop ParseFloat rs
                    (epss_list @
                      [\<lparr>cve_e = row ! 0, score = score_temp, percentile = percentile_temp\<rparr>]))))"

text \<open>
  What one pass makes of a record: the entry \<open>e\<close> holds the first field and the numbers
  parsed from the second and the third.
\<close>

definition parses_to :: "(string \<Rightarrow> 'f option) \<Rightarrow> csv_read \<Rightarrow> 'f epss_data \<Rightarrow> bool" where
  "parses_to ParseFloat r e =
     (case r of
        ReadError \<Rightarrow> False
      | Record row \<Rightarrow>
          3 \<le> length row \<and> cve_e e = row ! 0 \<and>
          ParseFloat (row ! 1) = Some (score e) \<and> ParseFloat (row ! 2) = Some (percentile e))"

text \<open>Lines 217 to 222: the text after the first line break, or the fatal error.\<close>

definition skip_first_line :: "string \<Rightarrow> failure + string" where
  "skip_first_line s =
     (let i = Index s [newline]
      in if i \<noteq> - 1 then Inr (drop (nat (i + 1)) s) else Inl Fatal_SkipFirstLine)"

text \<open>
  Lines 202 to 254: the list \<^verbatim>\<open>epss_list\<close> as it is when the loop ends, before line 256.
\<close>

definition parsed_rows ::
  "(string \<rightharpoonup> file_state) \<Rightarrow> (string \<Rightarrow> csv_read list) \<Rightarrow> (string \<Rightarrow> 'f option) \<Rightarrow> string
    \<Rightarrow> failure + 'f epss_data list"
where
  "parsed_rows fsys NewReader ParseFloat path =
     (case fsys path of
        None \<Rightarrow> Inl Fatal_Open
      | Some Unreadable \<Rightarrow> Inl Fatal_ReadFrom
      | Some (Contents s) \<Rightarrow>
          (case skip_first_line s of
             Inl e \<Rightarrow> Inl e
           | Inr s' \<Rightarrow> read_loop ParseFloat (NewReader s') []))"

text \<open>
  Line 256, \<^verbatim>\<open>epss_list = epss_list[2:]\<close>: Go panics when the list has fewer than two
  elements.
\<close>

definition slice_from_2 :: "'a list \<Rightarrow> failure + 'a list" where
  "slice_from_2 xs = (if 2 \<le> length xs then Inr (drop 2 xs) else Inl Panic_SliceBounds)"

definition LoadEpssData ::
  "(string \<rightharpoonup> file_state) \<Rightarrow> (string \<Rightarrow> csv_read list) \<Rightarrow> (string \<Rightarrow> 'f option) \<Rightarrow> string
    \<Rightarrow> failure + 'f epss_data list"
where
  "LoadEpssData fsys NewReader ParseFloat path =
     (case parsed_rows fsys NewReader ParseFloat path of
        Inl e \<Rightarrow> Inl e
      | Inr epss_list \<Rightarrow> slice_from_2 epss_list)"

text \<open>
  A reader for texts without quotation marks and carriage returns, where \<^verbatim>\<open>encoding/csv\<close>
  splits lines at line breaks, skips empty lines, splits fields at commas and reports
  each record whose number of fields differs from that of the first record.
\<close>

fun split_on :: "char \<Rightarrow> string \<Rightarrow> string list" where
  "split_on c [] = [[]]"
| "split_on c (x # xs) =
     (if x = c then [] # split_on c xs
      else (case split_on c xs of [] \<Rightarrow> [[x]] | w # ws \<Rightarrow> (x # w) # ws))"

definition unquoted_csv :: "string \<Rightarrow> csv_read list" where
  "unquoted_csv s =
     (let rows = map (split_on (CHR '','')) (filter (\<lambda>l. l \<noteq> []) (split_on newline s))
      in map (\<lambda>r. if length r = length (hd rows) then Record r else ReadError) rows)"


section \<open>Decimal numerals\<close>

definition digit_char :: "nat \<Rightarrow> char" where
  "digit_char d = ''0123456789'' ! (d mod 10)"

fun digits :: "nat \<Rightarrow> string" where
  "digits n = (if n < 10 then [digit_char n] else digits (n div 10) @ [digit_char (n mod 10)])"

declare digits.simps [simp del]

text \<open>\<^verbatim>\<open>strconv.Itoa\<close>, also what \<^verbatim>\<open>%v\<close> and \<^verbatim>\<open>%d\<close> print for an \<^verbatim>\<open>int\<close>.\<close>

definition Itoa :: "int \<Rightarrow> string" where
  "Itoa i = (if i < 0 then CHR ''-'' # digits (nat (- i)) else digits (nat i))"

definition digit_val :: "char \<Rightarrow> nat option" where
  "digit_val c =
     (if c \<in> set ''0123456789'' then Some (of_char c - 48) else None)"

fun parse_digits :: "string \<Rightarrow> nat \<Rightarrow> nat option" where
  "parse_digits [] acc = Some acc"
| "parse_digits (c # cs) acc =
     (case digit_val c of None \<Rightarrow> None | Some d \<Rightarrow> parse_digits cs (10 * acc + d))"

text \<open>
  \<^verbatim>\<open>strconv.Atoi\<close>: an optional sign and decimal digits, within the range of a 64-bit
  \<^verbatim>\<open>int\<close>; \<open>None\<close> is its error.
\<close>

definition Atoi :: "string \<Rightarrow> int option" where
  "Atoi s =
     (let r = (case s of
                 [] \<Rightarrow> None
               | c # cs \<Rightarrow>
                   if c = CHR ''-'' then
                     (if cs = [] then None else map_option (\<lambda>n. - int n) (parse_digits cs 0))
                   else if c = CHR ''+'' then
                     (if cs = [] then None else map_option int (parse_digits cs 0))
                   else map_option int (parse_digits s 0))
      in case r of
           None \<Rightarrow> None
         | Some v \<Rightarrow> if - (2 ^ 63) \<le> v \<and> v < 2 ^ 63 then Some v else None)"

section \<open>CreateFindingsRaw\<close>

text \<open>
  The \<^verbatim>\<open>*jsonq.JsonQuery\<close> object, as the three methods the program calls on it. Each takes
  the path and returns the value found, or \<open>None\<close> for a non-nil \<^verbatim>\<open>err\<close>. The library is not
  part of the repository, so the extractor is modelled over any such object.
\<close>

record JsonQuery =
  jq_Int :: "string list \<Rightarrow> int option"
  jq_String :: "string list \<Rightarrow> string option"
  jq_Object :: "string list \<Rightarrow> (string \<rightharpoonup> json) option"

text \<open>
  Lines 66 to 75: the identifier at position 0 and, when it contains \<^verbatim>\<open>GHSA\<close>, the one at
  position 1 instead.
\<close>

definition extract_cve :: "JsonQuery \<Rightarrow> int \<Rightarrow> failure + string" where
  "extract_cve jq i =
     (case jq_String jq [''results'', Itoa i, ''vulnerability_ids'', ''0'', ''vulnerability_id''] of
        None \<Rightarrow> Inl Fatal_VulnerabilityId
      | Some c \<Rightarrow>
          if Contains c ''GHSA'' then
            (case jq_String jq
                    [''results'', Itoa i, ''vulnerability_ids'', ''1'', ''vulnerability_id''] of
               None \<Rightarrow> Inl Fatal_VulnerabilityId
             | Some c' \<Rightarrow> Inr c')
          else Inr c)"

text \<open>
  Lines 66 to 86, one pass through the body of the loop: the new value of
  \<^verbatim>\<open>current_finding\<close>.
\<close>

definition extract_finding ::
  "JsonQuery \<Rightarrow> int \<Rightarrow> 'f finding_data \<Rightarrow> failure + 'f finding_data"
where
  "extract_finding jq i current_finding =
     (case extract_cve jq i of
        Inl e \<Rightarrow> Inl e
      | Inr c \<Rightarrow>
          (case jq_Int jq [''results'', Itoa i, ''id''] of
             None \<Rightarrow> Inl Fatal_Id
           | Some n \<Rightarrow>
               (case jq_Object jq [''results'', Itoa i] of
                  None \<Rightarrow> Inl Fatal_Object
                | Some b \<Rightarrow>
                    Inr (current_finding\<lparr>cve := c, id_f := n, selector := i, body := b\<rparr>))))"

text \<open>
  The loop \<^verbatim>\<open>for i := 1; i < findings_count; i++\<close>. The line that \<^verbatim>\<open>CreateFindingsRaw\<close>
  prints before the loop is left out of the model.
\<close>

function findings_loop ::
  "JsonQuery \<Rightarrow> int \<Rightarrow> int \<Rightarrow> 'f finding_data \<Rightarrow> 'f finding_data list
    \<Rightarrow> failure + 'f finding_data list"
where
  "findings_loop jq findings_count i current_finding findings_list_raw =
     (if i < findings_count then
        (case extract_finding jq i current_finding of
           Inl e \<Rightarrow> Inl e
         | Inr current_finding' \<Rightarrow>
             findings_loop jq findings_count (i + 1) current_finding'
               (findings_list_raw @ [current_finding']))
      else Inr findings_list_raw)"
  by pat_completeness auto
termination
  by (relation "measure (\<lambda>(jq, findings_count, i, current_finding, findings_list_raw).
                  nat (findings_count - i))") auto

declare findings_loop.simps [simp del]

text \<open>The zero value of \<^verbatim>\<open>finding_data\<close>, which \<^verbatim>\<open>var current_finding finding_data\<close> holds.\<close>

definition zero_finding :: "('f::zero) finding_data" where
  "zero_finding =
     \<lparr>selector = 0, id_f = 0, cve = [], epss_score = 0, epss_percentile = 0, body = Map.empty\<rparr>"

definition CreateFindingsRaw :: "JsonQuery \<Rightarrow> failure + ('f::zero) finding_data list" where
  "CreateFindingsRaw jq =
     (case jq_Int jq [''count''] of
        None \<Rightarrow> Inl Fatal_Count
      | Some findings_count \<Rightarrow> findings_loop jq findings_count 1 zero_finding [])"

text \<open>
  What makes pass \<open>j\<close> of the loop end the run with \<open>e\<close>: one of its four queries
  returns an error.
\<close>

definition lookup_fails :: "JsonQuery \<Rightarrow> int \<Rightarrow> failure \<Rightarrow> bool" where
  "lookup_fails jq j e =
     (extract_cve jq j = Inl e \<or>
      (e = Fatal_Id \<and> jq_Int jq [''results'', Itoa j, ''id''] = None) \<or>
      (e = Fatal_Object \<and> jq_Object jq [''results'', Itoa j] = None))"

subsection \<open>The query object of a decoded document\<close>

text \<open>
  What the jsonq library answers on a decoded document whose numbers are integers, whose
  strings, where they are read as numbers, are decimal integer numerals, and whose objects
  list each key once. A path element that \<open>Atoi\<close> accepts indexes an array and is an error
  on anything else; any other element names a field of an object; a path that ends at
  \<^verbatim>\<open>null\<close> is an error. (The library reads a string as a number with \<^verbatim>\<open>ParseFloat\<close> and
  cuts the fraction off, and converts every number from \<^verbatim>\<open>float64\<close>; on the documents
  described here that is the integer itself. A negative index into an array is answered
  with an error here; the extractor never asks for one.)
\<close>

definition query :: "json \<Rightarrow> string \<Rightarrow> json option" where
  "query blob q =
     (case Atoi q of
        Some index \<Rightarrow>
          (case blob of
             JArray xs \<Rightarrow>
               if 0 \<le> index \<and> index < int (length xs) then Some (xs ! nat index) else None
           | _ \<Rightarrow> None)
      | None \<Rightarrow> (case blob of JObject kvs \<Rightarrow> map_of kvs q | _ \<Rightarrow> None))"

fun rquery :: "json \<Rightarrow> string list \<Rightarrow> json option" where
  "rquery blob [] = (case blob of JNull \<Rightarrow> None | _ \<Rightarrow> Some blob)"
| "rquery blob (q # s) = (case query blob q of None \<Rightarrow> None | Some v \<Rightarrow> rquery v s)"

definition NewQuery :: "json \<Rightarrow> JsonQuery" where
  "NewQuery blob =
     \<lparr>jq_Int = (\<lambda>s. case rquery blob s of
                  Some (JNumber n) \<Rightarrow> Some n
                | Some (JString v) \<Rightarrow> Atoi v
                | _ \<Rightarrow> None),
      jq_String = (\<lambda>s. case rquery blob s of Some (JString v) \<Rightarrow> Some v | _ \<Rightarrow> None),
      jq_Object = (\<lambda>s. case rquery blob s of Some (JObject kvs) \<Rightarrow> Some (map_of kvs) | _ \<Rightarrow> None)\<rparr>"

section \<open>EnrichFindingData\<close>

text \<open>Lines 267 to 270: the map built from the list, a later entry replacing an earlier one.\<close>

definition epssMap_of :: "'f epss_data list \<Rightarrow> (string \<rightharpoonup> 'f epss_data)" where
  "epssMap_of epssList = foldl (\<lambda>epssMap epss. epssMap(cve_e epss \<mapsto> epss)) Map.empty epssList"

text \<open>
  Lines 274 to 282, the body of the second loop. \<^verbatim>\<open>fmt.Sprintf("%.5f", _)\<close> is the parameter
  \<open>Sprintf5\<close>. Each finding owns its body (every element of \<^verbatim>\<open>results\<close> decodes to a map of
  its own), so writing into one body is an update of that finding alone; and the body that
  \<^verbatim>\<open>jq.Object\<close> returned is never the nil map, so the two writes cannot panic.
\<close>

definition enrich_finding ::
  "('f \<Rightarrow> string) \<Rightarrow> (string \<rightharpoonup> 'f epss_data) \<Rightarrow> 'f finding_data \<Rightarrow> 'f finding_data"
where
  "enrich_finding Sprintf5 epssMap finding =
     (case epssMap (cve finding) of
        None \<Rightarrow> finding
      | Some epss \<Rightarrow>
          (let finding = finding\<lparr>epss_score := score epss\<rparr>;
               finding = finding\<lparr>epss_percentile := percentile epss\<rparr>;
               finding = finding\<lparr>body := (body finding)
                           (''epss_score'' \<mapsto> JString (Sprintf5 (epss_score finding)))\<rparr>;
               finding = finding\<lparr>body := (body finding)
                           (''epss_percentile'' \<mapsto> JString (Sprintf5 (epss_percentile finding)))\<rparr>
           in finding))"

text \<open>The findings list after the call: the loop updates the list element by element.\<close>

definition EnrichFindingData ::
  "('f \<Rightarrow> string) \<Rightarrow> 'f epss_data list \<Rightarrow> 'f finding_data list \<Rightarrow> 'f finding_data list"
where
  "EnrichFindingData Sprintf5 epssList findingsList =
     (let epssMap = epssMap_of epssList
      in map (enrich_finding Sprintf5 epssMap) findingsList)"

section \<open>PatchFindingData\<close>

record request =
  req_method :: string
  req_url :: string
  req_header :: "(string \<times> string) list"
  req_body :: string

text \<open>
  What the loop changes outside the program: the state of the network and of the tracking
  service (\<open>net\<close>), the requests handed to \<^verbatim>\<open>client.Do\<close> (\<open>sent\<close>) and the lines printed
  (\<open>stdout\<close>).
\<close>

record 'n world =
  net :: 'n
  sent :: "request list"
  stdout :: "string list"

definition finding_url :: "flags \<Rightarrow> int \<Rightarrow> string" where
  "finding_url flags n =
     ''http://'' @ ip flags @ '':'' @ Itoa (port flags) @ ''/api/v2/findings/'' @ Itoa n"

text \<open>Lines 303 to 310: the request and its three headers.\<close>

definition put_request :: "flags \<Rightarrow> int \<Rightarrow> string \<Rightarrow> request" where
  "put_request flags n jsonData =
     \<lparr>req_method = ''PUT'', req_url = finding_url flags n,
      req_header = [(''Authorization'', authToken flags), (''Accept'', ''application/json''),
                    (''Content-Type'', ''application/json'')],
      req_body = jsonData\<rparr>"

text \<open>Lines 319 to 325: the line printed for a response.\<close>

definition report :: "int \<Rightarrow> int \<Rightarrow> string" where
  "report n StatusCode =
     (if StatusCode \<noteq> 200
      then ''Updating finding failed with status code '' @ Itoa StatusCode @ [newline]
      else ''Successfully updated finding with ID: '' @ Itoa n @ [newline])"

text \<open>
  The loop of \<^verbatim>\<open>PatchFindingData\<close>. The libraries are parameters: \<open>Marshal\<close> is
  \<^verbatim>\<open>json.Marshal\<close> (\<open>None\<close> its error), \<open>url_ok\<close> says whether \<^verbatim>\<open>http.NewRequest\<close> accepts the
  address, and \<open>Do\<close> is \<^verbatim>\<open>client.Do\<close>: from the state of the network and a request, the status
  code of the response (\<open>None\<close> for an error of the transport) and the new state. The result
  is the fatal error that ended the run, if any, and the world it left.
\<close>

fun PatchFindingData ::
  "((string \<rightharpoonup> json) \<Rightarrow> string option) \<Rightarrow> (string \<Rightarrow> bool) \<Rightarrow> ('n \<Rightarrow> request \<Rightarrow> int option \<times> 'n)
    \<Rightarrow> 'f finding_data list \<Rightarrow> flags \<Rightarrow> 'n world \<Rightarrow> failure option \<times> 'n world"
where
  "PatchFindingData Marshal url_ok Do [] flags w = (None, w)"
| "PatchFindingData Marshal url_ok Do (finding # findings_list) flags w =
     (case Marshal (body finding) of
        None \<Rightarrow> (Some Fatal_Marshal, w)
      | Some jsonData \<Rightarrow>
          if \<not> url_ok (finding_url flags (id_f finding)) then (Some Fatal_NewRequest, w)
          else
            (let req = put_request flags (id_f finding) jsonData;
                 (resp, net') = Do (net w) req;
                 w = w\<lparr>net := net', sent := sent w @ [req]\<rparr>
             in case resp of
                  None \<Rightarrow> (Some Fatal_Do, w)
                | Some StatusCode \<Rightarrow>
                    PatchFindingData Marshal url_ok Do findings_list flags
                      (w\<lparr>stdout := stdout w @ [report (id_f finding) StatusCode]\<rparr>)))"

text \<open>
  The answers of the service to a sequence of requests sent one after another from the
  state \<open>n\<close>, as \<open>Do\<close> gives them.
\<close>

fun responses :: "('n \<Rightarrow> request \<Rightarrow> int option \<times> 'n) \<Rightarrow> 'n \<Rightarrow> request list \<Rightarrow> int option list" where
  "responses Do n [] = []"
| "responses Do n (r # rs) = (case Do n r of (resp, n') \<Rightarrow> resp # responses Do n' rs)"

text \<open>
  The status codes of the responses up to the first error of the transport, which is where
  the loop stops.
\<close>

fun answered :: "int option list \<Rightarrow> int list" where
  "answered [] = []"
| "answered (None # rs) = []"
| "answered (Some s # rs) = s # answered rs"

text \<open>
  The findings at the head of the list for which lines 293 to 310 build a request (the body
  serialises and the address is accepted), and the requests built for a list of findings.
\<close>

definition ready ::
  "((string \<rightharpoonup> json) \<Rightarrow> string option) \<Rightarrow> (string \<Rightarrow> bool) \<Rightarrow> flags \<Rightarrow> 'f finding_data list
    \<Rightarrow> 'f finding_data list"
where
  "ready Marshal url_ok flags fs =
     takeWhile (\<lambda>f. Marshal (body f) \<noteq> None \<and> url_ok (finding_url flags (id_f f))) fs"

definition requests_of ::
  "((string \<rightharpoonup> json) \<Rightarrow> string option) \<Rightarrow> flags \<Rightarrow> 'f finding_data list \<Rightarrow> request list"
where
  "requests_of Marshal flags fs =
     map (\<lambda>f. put_request flags (id_f f) (the (Marshal (body f)))) fs"

section \<open>The flags of main\<close>

text \<open>
  The \<^verbatim>\<open>flag\<close> package keeps one variable for each flag that is defined; \<^verbatim>\<open>flag.String\<close> and
  \<^verbatim>\<open>flag.Int\<close> allocate the variable, store the default value in it and return its address.
  Only \<^verbatim>\<open>flag.Parse\<close> reads the command line and stores what it finds there.
\<close>

datatype flag_value = StringValue string | IntValue int

record FlagSet =
  vars :: "flag_value list"
  formal :: "(string \<times> nat) list"

definition flag_String :: "string \<Rightarrow> string \<Rightarrow> FlagSet \<Rightarrow> nat \<times> FlagSet" where
  "flag_String name val f =
     (length (vars f),
      f\<lparr>vars := vars f @ [StringValue val], formal := formal f @ [(name, length (vars f))]\<rparr>)"

definition flag_Int :: "string \<Rightarrow> int \<Rightarrow> FlagSet \<Rightarrow> nat \<times> FlagSet" where
  "flag_Int name val f =
     (length (vars f),
      f\<lparr>vars := vars f @ [IntValue val], formal := formal f @ [(name, length (vars f))]\<rparr>)"

text \<open>Reading through the address that \<^verbatim>\<open>flag.String\<close> or \<^verbatim>\<open>flag.Int\<close> returned.\<close>

definition deref_string :: "FlagSet \<Rightarrow> nat \<Rightarrow> string" where
  "deref_string f p = (case vars f ! p of StringValue s \<Rightarrow> s | IntValue _ \<Rightarrow> [])"

definition deref_int :: "FlagSet \<Rightarrow> nat \<Rightarrow> int" where
  "deref_int f p = (case vars f ! p of IntValue n \<Rightarrow> n | StringValue _ \<Rightarrow> 0)"

text \<open>
  Lines 330 to 333 of \<^verbatim>\<open>main\<close>, run on the command line \<open>args\<close> (\<^verbatim>\<open>os.Args[1:]\<close>). Each flag
  is read through its address in the statement that defines it, and \<^verbatim>\<open>main\<close> has no call
  of \<^verbatim>\<open>flag.Parse\<close>: no statement reads \<open>args\<close>.
\<close>

definition main_flags :: "string list \<Rightarrow> flags" where
  "main_flags args =
     (let CommandLine = \<lparr>vars = [], formal = []\<rparr>;
          (p, CommandLine) = flag_String ''t'' [] CommandLine;
          t = deref_string CommandLine p;
          (p, CommandLine) = flag_String ''u'' ''localhost'' CommandLine;
          u = deref_string CommandLine p;
          (p, CommandLine) = flag_Int ''p'' 8080 CommandLine;
          n = deref_int CommandLine p
      in \<lparr>authToken = t, ip = u, port = n\<rparr>)"

text \<open>Lines 101 to 108: the request of \<^verbatim>\<open>FetchFindings\<close>.\<close>

definition FetchFindings_request :: "flags \<Rightarrow> request" where
  "FetchFindings_request flags =
     \<lparr>req_method = ''GET'',
      req_url = ''http://'' @ ip flags @ '':'' @ Itoa (port flags) @
                ''/api/v2/findings/?active=true&limit=99999999'',
      req_header = [(''Authorization'', authToken flags)],
      req_body = []\<rparr>"

section \<open>Sample inputs\<close>

text \<open>
  A feed of the metadata line and three rows, with \<^verbatim>\<open>strconv.ParseFloat\<close> on the numbers
  that occur in the sample feeds (any other text is its error).
\<close>

definition sample_feed :: string where
  "sample_feed =
     ''#model_version:v1'' @ [newline] @
     ''CVE-2024-0001,0.12345,0.67890'' @ [newline] @
     ''CVE-2024-0002,0.00042,0.05000'' @ [newline] @
     ''CVE-2024-0003,0.90000,0.99000'' @ [newline]"

definition sample_ParseFloat :: "string \<Rightarrow> real option" where
  "sample_ParseFloat =
     map_of [(''0.12345'', 0.12345), (''0.67890'', 0.6789), (''0.00042'', 0.00042),
             (''0.05000'', 0.05), (''0.90000'', 0.9), (''0.99000'', 0.99)]"

text \<open>
  The listing of the end-to-end scenario, a listing whose only finding has the empty string
  as its identifier, and one whose only finding has no identifier.
\<close>

definition sample_listing :: json where
  "sample_listing =
     JObject [(''count'', JNumber 3),
       (''results'', JArray [
          JObject [],
          JObject [(''id'', JNumber 10),
                   (''vulnerability_ids'',
                      JArray [JObject [(''vulnerability_id'', JString ''CVE-2024-0001'')]])],
          JObject [(''id'', JNumber 11),
                   (''vulnerability_ids'',
                      JArray [JObject [(''vulnerability_id'', JString ''GHSA-xxxx'')],
                              JObject [(''vulnerability_id'', JString ''CVE-2024-0002'')]])]])]"

definition empty_id_listing :: json where
  "empty_id_listing =
     JObject [(''count'', JNumber 2),
       (''results'', JArray [
          JObject [],
          JObject [(''id'', JNumber 10),
                   (''vulnerability_ids'',
                      JArray [JObject [(''vulnerability_id'', JString [])]])]])]"

definition missing_id_listing :: json where
  "missing_id_listing =
     JObject [(''count'', JNumber 2),
       (''results'', JArray [
          JObject [],
          JObject [(''id'', JNumber 10), (''vulnerability_ids'', JArray [])]])]"

text \<open>
  A feed of the metadata line and the line of column names, and a feed of the metadata line
  and one row.
\<close>

definition header_only_feed :: string where
  "header_only_feed = ''#model_version:v1'' @ [newline] @ ''cve,epss,percentile'' @ [newline]"

definition one_row_feed :: string where
  "one_row_feed =
     ''#model_version:v1'' @ [newline] @ ''CVE-2024-0001,0.12345,0.67890'' @ [newline]"

text \<open>What the extractor returns on \<open>sample_listing\<close>.\<close>

definition sample_findings :: "real finding_data list" where
  "sample_findings =
     [\<lparr>selector = 1, id_f = 10, cve = ''CVE-2024-0001'', epss_score = 0, epss_percentile = 0,
       body = map_of [(''id'', JNumber 10),
                (''vulnerability_ids'',
                   JArray [JObject [(''vulnerability_id'', JString ''CVE-2024-0001'')]])]\<rparr>,
      \<lparr>selector = 2, id_f = 11, cve = ''CVE-2024-0002'', epss_score = 0, epss_percentile = 0,
       body = map_of [(''id'', JNumber 11),
                (''vulnerability_ids'',
                   JArray [JObject [(''vulnerability_id'', JString ''GHSA-xxxx'')],
                           JObject [(''vulnerability_id'', JString ''CVE-2024-0002'')]])]\<rparr>]"

text \<open>A feed in which one identifier occurs in three rows, and what the loader returns on it.\<close>

definition duplicate_feed :: string where
  "duplicate_feed =
     ''#model_version:v1'' @ [newline] @
     ''CVE-2024-0001,0.12345,0.67890'' @ [newline] @
     ''CVE-2024-0002,0.00042,0.05000'' @ [newline] @
     ''CVE-2024-0001,0.90000,0.99000'' @ [newline] @
     ''CVE-2024-0001,0.00042,0.05000'' @ [newline]"

definition duplicate_result :: "real epss_data list" where
  "duplicate_result =
     [\<lparr>cve_e = ''CVE-2024-0001'', score = 0.9, percentile = 0.99\<rparr>,
      \<lparr>cve_e = ''CVE-2024-0001'', score = 0.00042, percentile = 0.05\<rparr>]"

text \<open>
  A formatter for \<^verbatim>\<open>%.5f\<close> on non-negative values with at most five decimals, as the
  samples have them: on these no rounding takes place, and the string is the integer part,
  a point and the five decimals. (On other values \<^verbatim>\<open>%.5f\<close> rounds the binary value to
  nearest-even and prints the sign, which this formatter does not.)
\<close>

definition sample_Sprintf5 :: "real \<Rightarrow> string" where
  "sample_Sprintf5 x =
     (let n = nat \<lfloor>x * 100000 + 1 / 2\<rfloor>;
          frac = digits (n mod 100000)
      in digits (n div 100000) @ ''.'' @ replicate (5 - length frac) (CHR ''0'') @ frac)"

text \<open>The score list of the end-to-end scenario.\<close>

definition sample_epss :: "real epss_data list" where
  "sample_epss = [\<lparr>cve_e = ''CVE-2024-0001'', score = 0.12345, percentile = 0.6789\<rparr>]"

text \<open>
  Three findings, a service that answers the first request with 200, the second with 404
  and the third with 201, and a transport that fails on the second request. The stand-in
  for \<^verbatim>\<open>json.Marshal\<close> writes the id of a body and fails on a body without one; the
  stand-in for the address check of \<^verbatim>\<open>http.NewRequest\<close> refuses an address with a blank.
\<close>

definition three_findings :: "real finding_data list" where
  "three_findings =
     [\<lparr>selector = 1, id_f = 10, cve = ''CVE-2024-0001'', epss_score = 0, epss_percentile = 0,
       body = [''id'' \<mapsto> JNumber 10]\<rparr>,
      \<lparr>selector = 2, id_f = 11, cve = ''CVE-2024-0002'', epss_score = 0, epss_percentile = 0,
       body = [''id'' \<mapsto> JNumber 11]\<rparr>,
      \<lparr>selector = 3, id_f = 12, cve = ''CVE-2024-0003'', epss_score = 0, epss_percentile = 0,
       body = [''id'' \<mapsto> JNumber 12]\<rparr>]"

text \<open>The same findings, the second with a body that the stand-in cannot serialise.\<close>

definition bad_body_findings :: "real finding_data list" where
  "bad_body_findings =
     [\<lparr>selector = 1, id_f = 10, cve = ''CVE-2024-0001'', epss_score = 0, epss_percentile = 0,
       body = [''id'' \<mapsto> JNumber 10]\<rparr>,
      \<lparr>selector = 2, id_f = 11, cve = ''CVE-2024-0002'', epss_score = 0, epss_percentile = 0,
       body = Map.empty\<rparr>,
      \<lparr>selector = 3, id_f = 12, cve = ''CVE-2024-0003'', epss_score = 0, epss_percentile = 0,
       body = [''id'' \<mapsto> JNumber 12]\<rparr>]"

definition sample_Marshal :: "(string \<rightharpoonup> json) \<Rightarrow> string option" where
  "sample_Marshal b = (case b ''id'' of Some (JNumber n) \<Rightarrow> Some (Itoa n) | _ \<Rightarrow> None)"

definition sample_Do :: "nat \<Rightarrow> request \<Rightarrow> int option \<times> nat" where
  "sample_Do n r = (Some (if n = 0 then 200 else if n = 1 then 404 else 201), Suc n)"

definition dropping_Do :: "nat \<Rightarrow> request \<Rightarrow> int option \<times> nat" where
  "dropping_Do n r = (if n = 1 then None else Some 200, Suc n)"

definition sample_url_ok :: "string \<Rightarrow> bool" where
  "sample_url_ok u = (u \<noteq> [] \<and> CHR '' '' \<notin> set u)"

definition default_flags :: flags where
  "default_flags = \<lparr>authToken = [], ip = ''localhost'', port = 8080\<rparr>"

section \<open>Properties of LoadEpssData\<close>

lemma read_loop_rows:
  "read_loop pf rs acc = Inr out \<Longrightarrow> \<exists>new. out = acc @ new \<and> list_all2 (parses_to pf) rs new"
proof (induction pf rs acc rule: read_loop.induct)
  case (1 pf acc)
  then show ?case by simp
next
  case (2 pf rs acc)
  then show ?case by simp
next
  case (3 pf row rs acc)
  from "3.prems" obtain s p where
    len: "3 \<le> length row" and s: "pf (row ! 1) = Some s" and p: "pf (row ! 2) = Some p" and
    rest: "read_loop pf rs (acc @ [\<lparr>cve_e = row ! 0, score = s, percentile = p\<rparr>]) = Inr out"
    by (auto split: if_splits option.splits)
  have a: "\<not> length row \<le> 0" "\<not> length row \<le> 1" "\<not> length row \<le> 2" using len by auto
  from "3.IH"[OF a(1) a(2) s a(3) p rest] obtain new where
    out: "out = (acc @ [\<lparr>cve_e = row ! 0, score = s, percentile = p\<rparr>]) @ new" and
    all: "list_all2 (parses_to pf) rs new" by blast
  have "parses_to pf (Record row) \<lparr>cve_e = row ! 0, score = s, percentile = p\<rparr>"
    using len s p by (simp add: parses_to_def)
  with all have "list_all2 (parses_to pf) (Record row # rs)
      (\<lparr>cve_e = row ! 0, score = s, percentile = p\<rparr> # new)" by simp
  moreover have "out = acc @ (\<lparr>cve_e = row ! 0, score = s, percentile = p\<rparr> # new)"
    using out by simp
  ultimately show ?case by blast
qed

text \<open>
  C1. Whenever \<open>LoadEpssData\<close> returns, the file was read, its first line skipped, the
  records of the rest parsed one by one and in order into the list \<open>rows\<close>, and the result
  is \<open>rows\<close> without its first two entries.
\<close>

theorem LoadEpssData_drops_first_two:
  assumes "LoadEpssData fsys NewReader ParseFloat path = Inr result"
  shows "\<exists>s s' rows. fsys path = Some (Contents s) \<and> skip_first_line s = Inr s' \<and>
           read_loop ParseFloat (NewReader s') [] = Inr rows \<and>
           list_all2 (parses_to ParseFloat) (NewReader s') rows \<and>
           parsed_rows fsys NewReader ParseFloat path = Inr rows \<and>
           result = drop 2 rows \<and> rows = take 2 rows @ result \<and>
           length rows = length result + 2"
proof -
  from assms obtain s s' rows where
    f: "fsys path = Some (Contents s)" and k: "skip_first_line s = Inr s'" and
    l: "read_loop ParseFloat (NewReader s') [] = Inr rows" and
    p: "parsed_rows fsys NewReader ParseFloat path = Inr rows" and
    r: "result = drop 2 rows" and n: "2 \<le> length rows"
    by (auto simp: LoadEpssData_def parsed_rows_def slice_from_2_def
        split: option.splits file_state.splits sum.splits if_splits)
  from read_loop_rows[OF l] have a: "list_all2 (parses_to ParseFloat) (NewReader s') rows"
    by simp
  have "rows = take 2 rows @ result" "length rows = length result + 2"
    using r n by simp_all
  with f k l p r a show ?thesis by blast
qed

theorem LoadEpssData_drops_first_two_witness:
  "LoadEpssData [''./epss_raw.csv'' \<mapsto> Contents sample_feed] unquoted_csv sample_ParseFloat
     ''./epss_raw.csv'' = Inr [\<lparr>cve_e = ''CVE-2024-0003'', score = 0.9, percentile = 0.99\<rparr>] \<and>
   (\<exists>s s' rows. [''./epss_raw.csv'' \<mapsto> Contents sample_feed] ''./epss_raw.csv'' = Some (Contents s) \<and>
      skip_first_line s = Inr s' \<and>
      read_loop sample_ParseFloat (unquoted_csv s') [] = Inr rows \<and>
      list_all2 (parses_to sample_ParseFloat) (unquoted_csv s') rows \<and>
      parsed_rows [''./epss_raw.csv'' \<mapsto> Contents sample_feed] unquoted_csv sample_ParseFloat
        ''./epss_raw.csv'' = Inr rows \<and>
      [\<lparr>cve_e = ''CVE-2024-0003'', score = 0.9, percentile = 0.99\<rparr>] = drop 2 rows \<and>
      rows = take 2 rows @ [\<lparr>cve_e = ''CVE-2024-0003'', score = 0.9, percentile = 0.99\<rparr>] \<and>
      length rows = length [\<lparr>cve_e = ''CVE-2024-0003'', score = 0.9 :: real, percentile = 0.99\<rparr>] + 2)"
proof -
  have run: "LoadEpssData [''./epss_raw.csv'' \<mapsto> Contents sample_feed] unquoted_csv
      sample_ParseFloat ''./epss_raw.csv'' =
      Inr [\<lparr>cve_e = ''CVE-2024-0003'', score = 0.9, percentile = 0.99\<rparr>]"
    by (simp add: LoadEpssData_def parsed_rows_def slice_from_2_def skip_first_line_def
        sample_feed_def sample_ParseFloat_def unquoted_csv_def newline_def)
  from LoadEpssData_drops_first_two [OF run] run show ?thesis by blast
qed

lemma read_loop_no_slice_panic:
  "read_loop pf rs acc = Inl e \<Longrightarrow> e \<noteq> Panic_SliceBounds"
  by (induction pf rs acc rule: read_loop.induct) (auto split: if_splits option.splits)

lemma parsed_rows_no_slice_panic:
  "parsed_rows fsys NewReader ParseFloat path = Inl e \<Longrightarrow> e \<noteq> Panic_SliceBounds"
  by (auto simp: parsed_rows_def skip_first_line_def Let_def
      split: option.splits file_state.splits sum.splits if_splits
      dest: read_loop_no_slice_panic)

text \<open>
  C10, as the code has it. The run ends in the panic of line 256 exactly when the loop has
  ended, without a failure of its own, with fewer than two entries; \<open>LoadEpssData\<close> returns
  a value exactly when the loop has ended with two entries or more; and when the loop
  itself fails (a read error, a record that is too short, a field that is not a number),
  the run ends with that failure, which is never the panic of line 256.
\<close>

theorem LoadEpssData_panics_below_two_rows:
  "(LoadEpssData fsys NewReader ParseFloat path = Inl Panic_SliceBounds \<longleftrightarrow>
      (\<exists>rows. parsed_rows fsys NewReader ParseFloat path = Inr rows \<and> length rows < 2)) \<and>
   ((\<exists>result. LoadEpssData fsys NewReader ParseFloat path = Inr result) \<longleftrightarrow>
      (\<exists>rows. parsed_rows fsys NewReader ParseFloat path = Inr rows \<and> 2 \<le> length rows)) \<and>
   (\<forall>e. parsed_rows fsys NewReader ParseFloat path = Inl e \<longrightarrow>
      LoadEpssData fsys NewReader ParseFloat path = Inl e \<and> e \<noteq> Panic_SliceBounds)"
proof (cases "parsed_rows fsys NewReader ParseFloat path")
  case (Inl e)
  with parsed_rows_no_slice_panic[OF Inl] show ?thesis
    by (auto simp: LoadEpssData_def)
next
  case (Inr rows)
  then show ?thesis by (auto simp: LoadEpssData_def slice_from_2_def)
qed

theorem LoadEpssData_panics_below_two_rows_witness:
  "parsed_rows [''./epss_raw.csv'' \<mapsto> Contents one_row_feed] unquoted_csv sample_ParseFloat
     ''./epss_raw.csv'' = Inr [\<lparr>cve_e = ''CVE-2024-0001'', score = 0.12345, percentile = 0.6789\<rparr>] \<and>
   length [\<lparr>cve_e = ''CVE-2024-0001'', score = 0.12345 :: real, percentile = 0.6789\<rparr>] < 2 \<and>
   LoadEpssData [''./epss_raw.csv'' \<mapsto> Contents one_row_feed] unquoted_csv sample_ParseFloat
     ''./epss_raw.csv'' = Inl Panic_SliceBounds \<and>
   parsed_rows [''./epss_raw.csv'' \<mapsto> Contents header_only_feed] unquoted_csv sample_ParseFloat
     ''./epss_raw.csv'' = Inl Fatal_ParseScore \<and>
   LoadEpssData [''./epss_raw.csv'' \<mapsto> Contents header_only_feed] unquoted_csv sample_ParseFloat
     ''./epss_raw.csv'' = Inl Fatal_ParseScore"
proof -
  have rows: "parsed_rows [''./epss_raw.csv'' \<mapsto> Contents one_row_feed] unquoted_csv
      sample_ParseFloat ''./epss_raw.csv'' =
      Inr [\<lparr>cve_e = ''CVE-2024-0001'', score = 0.12345, percentile = 0.6789\<rparr>]"
    by (simp add: parsed_rows_def skip_first_line_def one_row_feed_def sample_ParseFloat_def
        unquoted_csv_def newline_def)
  have len: "length [\<lparr>cve_e = ''CVE-2024-0001'', score = 0.12345 :: real, percentile = 0.6789\<rparr>] < 2"
    by simp
  have hdr: "parsed_rows [''./epss_raw.csv'' \<mapsto> Contents header_only_feed] unquoted_csv
      sample_ParseFloat ''./epss_raw.csv'' = Inl Fatal_ParseScore"
    by (simp add: parsed_rows_def skip_first_line_def header_only_feed_def sample_ParseFloat_def
        unquoted_csv_def newline_def)
  from LoadEpssData_panics_below_two_rows
         [of "[''./epss_raw.csv'' \<mapsto> Contents one_row_feed]" unquoted_csv sample_ParseFloat
             "''./epss_raw.csv''"] rows len
  have a: "LoadEpssData [''./epss_raw.csv'' \<mapsto> Contents one_row_feed] unquoted_csv
      sample_ParseFloat ''./epss_raw.csv'' = Inl Panic_SliceBounds"
    by blast
  from LoadEpssData_panics_below_two_rows
         [of "[''./epss_raw.csv'' \<mapsto> Contents header_only_feed]" unquoted_csv sample_ParseFloat
             "''./epss_raw.csv''"] hdr
  have b: "LoadEpssData [''./epss_raw.csv'' \<mapsto> Contents header_only_feed] unquoted_csv
      sample_ParseFloat ''./epss_raw.csv'' = Inl Fatal_ParseScore"
    by blast
  from rows len a hdr b show ?thesis by blast
qed

text \<open>
  C10 as stated fails on its own example: on a feed of the metadata line and the line of
  column names the run does not reach line 256, it ends at the \<^verbatim>\<open>log.Fatal\<close> of line 242,
  since \<^verbatim>\<open>epss\<close> is not a number.
\<close>

theorem LoadEpssData_header_line_is_fatal:
  "LoadEpssData [''./epss_raw.csv'' \<mapsto> Contents header_only_feed] unquoted_csv sample_ParseFloat
     ''./epss_raw.csv'' = Inl Fatal_ParseScore \<and>
   Fatal_ParseScore \<noteq> Panic_SliceBounds"
  by (simp add: LoadEpssData_def parsed_rows_def skip_first_line_def header_only_feed_def
      sample_ParseFloat_def unquoted_csv_def newline_def)

section \<open>Properties of CreateFindingsRaw\<close>

lemma extract_finding_fields:
  assumes "extract_finding jq i cur = Inr f"
  shows "selector f = i \<and> extract_cve jq i = Inr (cve f) \<and>
         jq_Int jq [''results'', Itoa i, ''id''] = Some (id_f f) \<and>
         jq_Object jq [''results'', Itoa i] = Some (body f) \<and>
         epss_score f = epss_score cur \<and> epss_percentile f = epss_percentile cur"
  using assms
  by (auto simp: extract_finding_def split: sum.splits option.splits)

lemma findings_loop_result:
  "findings_loop jq n i cur acc = Inr fs \<Longrightarrow>
     \<exists>new. fs = acc @ new \<and> length new = nat (n - i) \<and>
       (\<forall>k < length new. \<exists>c. extract_finding jq (i + int k) c = Inr (new ! k) \<and>
           epss_score c = epss_score cur \<and> epss_percentile c = epss_percentile cur)"
proof (induction jq n i cur acc arbitrary: fs rule: findings_loop.induct)
  case (1 jq n i cur acc)
  show ?case
  proof (cases "i < n")
    case False
    with "1.prems" show ?thesis by (simp add: findings_loop.simps)
  next
    case True
    from True "1.prems" obtain cur' where
      ex: "extract_finding jq i cur = Inr cur'" and
      rest: "findings_loop jq n (i + 1) cur' (acc @ [cur']) = Inr fs"
      by (auto simp: findings_loop.simps[of jq n i] split: sum.splits)
    from "1.IH"[OF True ex rest] obtain new where
      fs: "fs = (acc @ [cur']) @ new" and len: "length new = nat (n - (i + 1))" and
      each: "\<forall>k < length new. \<exists>c. extract_finding jq (i + 1 + int k) c = Inr (new ! k) \<and>
           epss_score c = epss_score cur' \<and> epss_percentile c = epss_percentile cur'"
      by blast
    have keep: "epss_score cur' = epss_score cur \<and> epss_percentile cur' = epss_percentile cur"
      using extract_finding_fields[OF ex] by simp
    have "fs = acc @ (cur' # new)" using fs by simp
    moreover have "length (cur' # new) = nat (n - i)" using len True by simp
    moreover have "\<forall>k < length (cur' # new). \<exists>c. extract_finding jq (i + int k) c = Inr ((cur' # new) ! k) \<and>
           epss_score c = epss_score cur \<and> epss_percentile c = epss_percentile cur"
    proof (intro allI impI)
      fix k assume k: "k < length (cur' # new)"
      show "\<exists>c. extract_finding jq (i + int k) c = Inr ((cur' # new) ! k) \<and>
           epss_score c = epss_score cur \<and> epss_percentile c = epss_percentile cur"
      proof (cases k)
        case 0
        then show ?thesis using ex by auto
      next
        case (Suc j)
        with k have "j < length new" by simp
        with each obtain c where "extract_finding jq (i + 1 + int j) c = Inr (new ! j)"
          "epss_score c = epss_score cur'" "epss_percentile c = epss_percentile cur'" by blast
        then show ?thesis using Suc keep by (auto simp: add.assoc)
      qed
    qed
    ultimately show ?thesis by blast
  qed
qed

lemma extract_finding_fails:
  "extract_finding jq i cur = Inl e \<Longrightarrow> lookup_fails jq i e"
  by (auto simp: extract_finding_def lookup_fails_def split: sum.splits option.splits)

lemma findings_loop_fails:
  "findings_loop jq n i cur acc = Inl e \<Longrightarrow> \<exists>j. i \<le> j \<and> j < n \<and> lookup_fails jq j e"
proof (induction jq n i cur acc rule: findings_loop.induct)
  case (1 jq n i cur acc)
  show ?case
  proof (cases "i < n")
    case False
    with "1.prems" show ?thesis by (simp add: findings_loop.simps)
  next
    case True
    show ?thesis
    proof (cases "extract_finding jq i cur")
      case (Inl e')
      with True "1.prems" have "e' = e" by (simp add: findings_loop.simps[of jq n i])
      with Inl have "lookup_fails jq i e" by (auto dest: extract_finding_fails)
      with True show ?thesis by (intro exI[of _ i]) simp
    next
      case (Inr cur')
      with True "1.prems" have "findings_loop jq n (i + 1) cur' (acc @ [cur']) = Inl e"
        by (simp add: findings_loop.simps[of jq n i])
      from "1.IH"[OF True Inr this] obtain j where "i + 1 \<le> j" "j < n" "lookup_fails jq j e"
        by blast
      then show ?thesis by (intro exI[of _ j]) auto
    qed
  qed
qed

lemma CreateFindingsRaw_findings:
  assumes "CreateFindingsRaw jq = Inr fs"
  shows "\<exists>n. jq_Int jq [''count''] = Some n \<and> length fs = nat (n - 1) \<and>
          (\<forall>k < length fs.
             selector (fs ! k) = int k + 1 \<and>
             extract_cve jq (int k + 1) = Inr (cve (fs ! k)) \<and>
             jq_Int jq [''results'', Itoa (int k + 1), ''id''] = Some (id_f (fs ! k)) \<and>
             jq_Object jq [''results'', Itoa (int k + 1)] = Some (body (fs ! k)) \<and>
             epss_score (fs ! k) = 0 \<and> epss_percentile (fs ! k) = 0)"
proof -
  from assms obtain n where n: "jq_Int jq [''count''] = Some n"
    and loop: "findings_loop jq n 1 zero_finding [] = Inr fs"
    by (auto simp: CreateFindingsRaw_def split: option.splits)
  from findings_loop_result[OF loop] have len: "length fs = nat (n - 1)" and
    each: "\<forall>k < length fs. \<exists>c. extract_finding jq (1 + int k) c = Inr (fs ! k) \<and>
           epss_score c = epss_score (zero_finding :: 'a finding_data) \<and>
           epss_percentile c = epss_percentile (zero_finding :: 'a finding_data)"
    by auto
  have "\<forall>k < length fs.
             selector (fs ! k) = int k + 1 \<and>
             extract_cve jq (int k + 1) = Inr (cve (fs ! k)) \<and>
             jq_Int jq [''results'', Itoa (int k + 1), ''id''] = Some (id_f (fs ! k)) \<and>
             jq_Object jq [''results'', Itoa (int k + 1)] = Some (body (fs ! k)) \<and>
             epss_score (fs ! k) = 0 \<and> epss_percentile (fs ! k) = 0"
  proof (intro allI impI)
    fix k assume "k < length fs"
    with each obtain c where c: "extract_finding jq (1 + int k) c = Inr (fs ! k)"
      "epss_score c = 0" "epss_percentile c = 0"
      by (auto simp: zero_finding_def)
    from extract_finding_fields[OF c(1)] c(2,3)
    show "selector (fs ! k) = int k + 1 \<and>
             extract_cve jq (int k + 1) = Inr (cve (fs ! k)) \<and>
             jq_Int jq [''results'', Itoa (int k + 1), ''id''] = Some (id_f (fs ! k)) \<and>
             jq_Object jq [''results'', Itoa (int k + 1)] = Some (body (fs ! k)) \<and>
             epss_score (fs ! k) = 0 \<and> epss_percentile (fs ! k) = 0"
      by (simp add: add.commute)
  qed
  with n len show ?thesis by blast
qed

lemmas listing_eval =
  CreateFindingsRaw_def NewQuery_def findings_loop.simps extract_finding_def extract_cve_def
  query_def Atoi_def Itoa_def digits.simps digit_char_def digit_val_def Contains_def
  zero_finding_def

lemma sample_listing_run: "CreateFindingsRaw (NewQuery sample_listing) = Inr sample_findings"
  by (simp add: listing_eval sample_listing_def sample_findings_def)

text \<open>
  C2, as the code has it. For a listing whose count is \<open>n\<close>: when the extractor returns, it
  has produced \<open>n - 1\<close> summaries (none when \<open>n \<le> 0\<close>), for the indices \<open>1\<close> to \<open>n - 1\<close> in
  order, and the identifier of each is the string that the queries of lines 66 to 75 found
  for its index, whatever that string is; when the run fails, one of the queries for an
  index from \<open>1\<close> to \<open>n - 1\<close> returned an error.
\<close>

theorem CreateFindingsRaw_summaries:
  assumes "jq_Int jq [''count''] = Some n"
  shows "(\<forall>fs. (CreateFindingsRaw jq :: failure + ('f::zero) finding_data list) = Inr fs \<longrightarrow>
            length fs = nat (n - 1) \<and> map selector fs = [1..n - 1] \<and>
            (\<forall>k < length fs. extract_cve jq (int k + 1) = Inr (cve (fs ! k)))) \<and>
         (\<forall>e. (CreateFindingsRaw jq :: failure + 'f finding_data list) = Inl e \<longrightarrow>
            (\<exists>j. 1 \<le> j \<and> j < n \<and> lookup_fails jq j e))"
proof (intro conjI allI impI)
  fix fs :: "'f finding_data list" assume ok: "CreateFindingsRaw jq = Inr fs"
  from CreateFindingsRaw_findings[OF ok] assms
  have len: "length fs = nat (n - 1)"
    and each: "\<forall>k < length fs. selector (fs ! k) = int k + 1 \<and>
                 extract_cve jq (int k + 1) = Inr (cve (fs ! k))"
    by auto
  show "length fs = nat (n - 1)" by (rule len)
  show "map selector fs = [1..n - 1]"
  proof (rule nth_equalityI)
    show "length (map selector fs) = length [1..n - 1]" using len by simp
  next
    fix k assume "k < length (map selector fs)"
    then show "map selector fs ! k = [1..n - 1] ! k" using each len by simp
  qed
  show "\<And>k. k < length fs \<Longrightarrow> extract_cve jq (int k + 1) = Inr (cve (fs ! k))"
    using each by blast
next
  fix e assume "(CreateFindingsRaw jq :: failure + 'f finding_data list) = Inl e"
  with assms have "(findings_loop jq n 1 zero_finding [] :: failure + 'f finding_data list) = Inl e"
    by (simp add: CreateFindingsRaw_def)
  from findings_loop_fails[OF this]
  show "\<exists>j. 1 \<le> j \<and> j < n \<and> lookup_fails jq j e" .
qed

theorem CreateFindingsRaw_summaries_witness:
  "jq_Int (NewQuery sample_listing) [''count''] = Some 3 \<and>
   CreateFindingsRaw (NewQuery sample_listing) = Inr sample_findings \<and>
   length sample_findings = nat (3 - 1) \<and> map selector sample_findings = [1..3 - 1] \<and>
   extract_cve (NewQuery sample_listing) (int 0 + 1) = Inr (cve (sample_findings ! 0)) \<and>
   extract_cve (NewQuery sample_listing) (int 1 + 1) = Inr (cve (sample_findings ! 1)) \<and>
   jq_Int (NewQuery missing_id_listing) [''count''] = Some 2 \<and>
   (CreateFindingsRaw (NewQuery missing_id_listing) :: failure + real finding_data list) =
     Inl Fatal_VulnerabilityId \<and>
   (\<exists>j. 1 \<le> j \<and> j < 2 \<and> lookup_fails (NewQuery missing_id_listing) j Fatal_VulnerabilityId)"
proof -
  have c3: "jq_Int (NewQuery sample_listing) [''count''] = Some 3"
    by (simp add: NewQuery_def sample_listing_def query_def Atoi_def digit_val_def)
  have c2: "jq_Int (NewQuery missing_id_listing) [''count''] = Some 2"
    by (simp add: NewQuery_def missing_id_listing_def query_def Atoi_def digit_val_def)
  have fails: "(CreateFindingsRaw (NewQuery missing_id_listing)
                  :: failure + real finding_data list) = Inl Fatal_VulnerabilityId"
    by (simp add: listing_eval missing_id_listing_def)
  from CreateFindingsRaw_summaries [OF c3, where 'f = real] sample_listing_run
  have all: "length sample_findings = nat (3 - 1) \<and> map selector sample_findings = [1..3 - 1] \<and>
      (\<forall>k < length sample_findings.
         extract_cve (NewQuery sample_listing) (int k + 1) = Inr (cve (sample_findings ! k)))"
    by blast
  have "0 < length sample_findings" "1 < length sample_findings"
    by (simp_all add: sample_findings_def)
  with all
  have ok: "length sample_findings = nat (3 - 1) \<and> map selector sample_findings = [1..3 - 1] \<and>
      extract_cve (NewQuery sample_listing) (int 0 + 1) = Inr (cve (sample_findings ! 0)) \<and>
      extract_cve (NewQuery sample_listing) (int 1 + 1) = Inr (cve (sample_findings ! 1))"
    by blast
  from CreateFindingsRaw_summaries [OF c2, where 'f = real] fails
  have "\<exists>j. 1 \<le> j \<and> j < 2 \<and> lookup_fails (NewQuery missing_id_listing) j Fatal_VulnerabilityId"
    by blast
  with c3 c2 fails ok sample_listing_run show ?thesis by blast
qed

text \<open>
  C2 as stated fails: on \<open>empty_id_listing\<close>, whose count is 2, the extractor returns one
  summary, and its identifier is the empty string.
\<close>

theorem CreateFindingsRaw_empty_identifier:
  "jq_Int (NewQuery empty_id_listing) [''count''] = Some 2 \<and>
   map_sum id (map cve)
     (CreateFindingsRaw (NewQuery empty_id_listing) :: failure + real finding_data list) =
   Inr [[]]"
  by (simp add: listing_eval empty_id_listing_def)

text \<open>
  C4. In every summary produced, the identifier is the string at position 1 of the list
  when the string at position 0 contains \<^verbatim>\<open>GHSA\<close> (the test of line 70), and the string at
  position 0 otherwise.
\<close>

theorem alias_resolution:
  assumes "CreateFindingsRaw jq = Inr fs" and "k < length fs"
  shows "\<exists>c0. jq_String jq [''results'', Itoa (int k + 1), ''vulnerability_ids'', ''0'',
                 ''vulnerability_id''] = Some c0 \<and>
           (if Contains c0 ''GHSA''
            then jq_String jq [''results'', Itoa (int k + 1), ''vulnerability_ids'', ''1'',
                   ''vulnerability_id''] = Some (cve (fs ! k))
            else cve (fs ! k) = c0)"
proof -
  from CreateFindingsRaw_findings[OF assms(1)] assms(2)
  have "extract_cve jq (int k + 1) = Inr (cve (fs ! k))" by blast
  then show ?thesis
    by (auto simp: extract_cve_def split: option.splits if_splits)
qed

theorem alias_resolution_witness:
  "CreateFindingsRaw (NewQuery sample_listing) = Inr sample_findings \<and>
   1 < length sample_findings \<and>
   (\<exists>c0. jq_String (NewQuery sample_listing)
            [''results'', Itoa (int 1 + 1), ''vulnerability_ids'', ''0'', ''vulnerability_id'']
          = Some c0 \<and>
      (if Contains c0 ''GHSA''
       then jq_String (NewQuery sample_listing)
              [''results'', Itoa (int 1 + 1), ''vulnerability_ids'', ''1'', ''vulnerability_id'']
            = Some (cve (sample_findings ! 1))
       else cve (sample_findings ! 1) = c0)) \<and>
   cve (sample_findings ! 1) = ''CVE-2024-0002''"
proof -
  have len: "1 < length sample_findings" by (simp add: sample_findings_def)
  have "cve (sample_findings ! 1) = ''CVE-2024-0002''" by (simp add: sample_findings_def)
  with alias_resolution [OF sample_listing_run len] sample_listing_run len
  show ?thesis by blast
qed

section \<open>Properties of EnrichFindingData\<close>

lemma sample_Sprintf5_values:
  "sample_Sprintf5 0.12345 = ''0.12345''" "sample_Sprintf5 0.6789 = ''0.67890''"
proof -
  have f: "nat \<lfloor>(0.12345::real) * 100000 + 1 / 2\<rfloor> = 12345"
          "nat \<lfloor>(0.6789::real) * 100000 + 1 / 2\<rfloor> = 67890" by simp_all
  have d: "digits 12345 = ''12345''" "digits 67890 = ''67890''" "digits 0 = ''0''"
    by (simp_all add: digits.simps digit_char_def)
  show "sample_Sprintf5 0.12345 = ''0.12345''" "sample_Sprintf5 0.6789 = ''0.67890''"
    by (simp_all add: sample_Sprintf5_def Let_def f d)
qed

lemma epssMap_of_snoc:
  "epssMap_of (xs @ [x]) = (epssMap_of xs)(cve_e x \<mapsto> x)"
  by (simp add: epssMap_of_def)

lemma epssMap_of_last:
  "epssMap_of xs k =
     (if filter (\<lambda>e. cve_e e = k) xs = [] then None
      else Some (last (filter (\<lambda>e. cve_e e = k) xs)))"
proof (induction xs rule: rev_induct)
  case Nil
  show ?case by (simp add: epssMap_of_def)
next
  case (snoc x xs)
  show ?case
  proof (cases "cve_e x = k")
    case True
    then show ?thesis by (simp add: epssMap_of_snoc)
  next
    case False
    then show ?thesis using snoc by (simp add: epssMap_of_snoc)
  qed
qed

lemma dom_epssMap_of: "dom (epssMap_of xs) = cve_e ` set xs"
proof -
  have "\<And>k. (epssMap_of xs k \<noteq> None) = (k \<in> cve_e ` set xs)"
    by (auto simp: epssMap_of_last filter_empty_conv)
  then show ?thesis by (auto simp: dom_def)
qed

lemma epssMap_of_Some:
  assumes "epssMap_of xs k = Some e"
  shows "cve_e e = k \<and> e \<in> set xs"
proof -
  from assms have ne: "filter (\<lambda>e. cve_e e = k) xs \<noteq> []"
    and e: "e = last (filter (\<lambda>e. cve_e e = k) xs)"
    by (auto simp: epssMap_of_last split: if_splits)
  have "e \<in> set (filter (\<lambda>e. cve_e e = k) xs)" unfolding e using ne by (rule last_in_set)
  then show ?thesis by simp
qed

lemma LoadEpssData_Inr:
  "LoadEpssData fsys NewReader ParseFloat path = Inr result \<Longrightarrow>
     \<exists>rows. parsed_rows fsys NewReader ParseFloat path = Inr rows \<and> result = drop 2 rows"
  by (auto simp: LoadEpssData_def slice_from_2_def split: sum.splits if_splits)

lemma last_filter_drop:
  assumes "filter P (drop n xs) \<noteq> []"
  shows "last (filter P xs) = last (filter P (drop n xs))"
proof -
  have "filter P xs = filter P (take n xs) @ filter P (drop n xs)"
    by (metis append_take_drop_id filter_append)
  with assms show ?thesis by simp
qed

text \<open>
  C8. The map that \<open>EnrichFindingData\<close> builds from the list returned by \<open>LoadEpssData\<close>
  has each identifier of that list as a key, once; and the entry stored under a key is the
  last row with that identifier, both in the returned list and in the list \<open>rows\<close> that the
  read loop built from the text after the first line.
\<close>

theorem epssMap_last_row_wins:
  assumes "LoadEpssData fsys NewReader ParseFloat path = Inr result"
  shows "\<exists>rows. parsed_rows fsys NewReader ParseFloat path = Inr rows \<and>
           dom (epssMap_of result) = cve_e ` set result \<and>
           card (dom (epssMap_of result)) = length (remdups (map cve_e result)) \<and>
           (\<forall>k e. epssMap_of result k = Some e \<longrightarrow>
              cve_e e = k \<and>
              e = last (filter (\<lambda>r. cve_e r = k) result) \<and>
              e = last (filter (\<lambda>r. cve_e r = k) rows))"
proof -
  from LoadEpssData_Inr[OF assms] obtain rows where
    rows: "parsed_rows fsys NewReader ParseFloat path = Inr rows" and res: "result = drop 2 rows"
    by blast
  have d: "dom (epssMap_of result) = cve_e ` set result" by (rule dom_epssMap_of)
  have c: "card (dom (epssMap_of result)) = length (remdups (map cve_e result))"
    unfolding d by (simp add: length_remdups_card_conv)
  have l: "\<forall>k e. epssMap_of result k = Some e \<longrightarrow>
              cve_e e = k \<and>
              e = last (filter (\<lambda>r. cve_e r = k) result) \<and>
              e = last (filter (\<lambda>r. cve_e r = k) rows)"
  proof (intro allI impI)
    fix k e assume s: "epssMap_of result k = Some e"
    then have ne: "filter (\<lambda>r. cve_e r = k) result \<noteq> []"
      and e: "e = last (filter (\<lambda>r. cve_e r = k) result)"
      by (auto simp: epssMap_of_last split: if_splits)
    from ne have "last (filter (\<lambda>r. cve_e r = k) rows) = last (filter (\<lambda>r. cve_e r = k) result)"
      unfolding res by (rule last_filter_drop)
    with e epssMap_of_Some[OF s]
    show "cve_e e = k \<and> e = last (filter (\<lambda>r. cve_e r = k) result) \<and>
          e = last (filter (\<lambda>r. cve_e r = k) rows)" by simp
  qed
  from rows d c l show ?thesis by blast
qed

theorem epssMap_last_row_wins_witness:
  "LoadEpssData [''./epss_raw.csv'' \<mapsto> Contents duplicate_feed] unquoted_csv sample_ParseFloat
     ''./epss_raw.csv'' = Inr duplicate_result \<and>
   epssMap_of duplicate_result ''CVE-2024-0001'' =
     Some \<lparr>cve_e = ''CVE-2024-0001'', score = 0.00042, percentile = 0.05\<rparr> \<and>
   (\<exists>rows. parsed_rows [''./epss_raw.csv'' \<mapsto> Contents duplicate_feed] unquoted_csv
              sample_ParseFloat ''./epss_raw.csv'' = Inr rows \<and>
      dom (epssMap_of duplicate_result) = cve_e ` set duplicate_result \<and>
      card (dom (epssMap_of duplicate_result)) = length (remdups (map cve_e duplicate_result)) \<and>
      (\<forall>k e. epssMap_of duplicate_result k = Some e \<longrightarrow>
         cve_e e = k \<and>
         e = last (filter (\<lambda>r. cve_e r = k) duplicate_result) \<and>
         e = last (filter (\<lambda>r. cve_e r = k) rows)))"
proof -
  have run: "LoadEpssData [''./epss_raw.csv'' \<mapsto> Contents duplicate_feed] unquoted_csv
      sample_ParseFloat ''./epss_raw.csv'' = Inr duplicate_result"
    by (simp add: LoadEpssData_def parsed_rows_def slice_from_2_def skip_first_line_def
        duplicate_feed_def sample_ParseFloat_def unquoted_csv_def newline_def
        duplicate_result_def)
  have hit: "epssMap_of duplicate_result ''CVE-2024-0001'' =
     Some \<lparr>cve_e = ''CVE-2024-0001'', score = 0.00042, percentile = 0.05\<rparr>"
    by (simp add: epssMap_of_def duplicate_result_def)
  from epssMap_last_row_wins [OF run] run hit show ?thesis by blast
qed

lemma enrich_finding_Some:
  "m (cve f) = Some e \<Longrightarrow>
   enrich_finding S m f =
     f\<lparr>epss_score := score e, epss_percentile := percentile e,
       body := (body f)(''epss_score'' \<mapsto> JString (S (score e)),
                        ''epss_percentile'' \<mapsto> JString (S (percentile e)))\<rparr>"
  by (simp add: enrich_finding_def)

lemma enrich_finding_None: "m (cve f) = None \<Longrightarrow> enrich_finding S m f = f"
  by (simp add: enrich_finding_def)

lemma enrich_finding_cve: "cve (enrich_finding S m f) = cve f"
  by (cases "m (cve f)") (simp_all add: enrich_finding_Some enrich_finding_None)

lemma enrich_finding_idem: "enrich_finding S m (enrich_finding S m f) = enrich_finding S m f"
proof (cases "m (cve f)")
  case None
  then show ?thesis by (simp add: enrich_finding_None)
next
  case (Some e)
  let ?g = "enrich_finding S m f"
  have g: "?g = f\<lparr>epss_score := score e, epss_percentile := percentile e,
       body := (body f)(''epss_score'' \<mapsto> JString (S (score e)),
                        ''epss_percentile'' \<mapsto> JString (S (percentile e)))\<rparr>"
    using Some by (rule enrich_finding_Some)
  have "m (cve ?g) = Some e" using Some by (simp add: enrich_finding_cve)
  then have
    "enrich_finding S m ?g = ?g\<lparr>epss_score := score e, epss_percentile := percentile e,
       body := (body ?g)(''epss_score'' \<mapsto> JString (S (score e)),
                        ''epss_percentile'' \<mapsto> JString (S (percentile e)))\<rparr>"
    by (rule enrich_finding_Some)
  also have "\<dots> = ?g" unfolding g by (simp add: fun_upd_twist)
  finally show ?thesis .
qed

text \<open>
  C5. A finding whose identifier is a key of the map gets the score and the percentile of
  the entry \<open>e\<close> stored there, and its body is the old body with the two keys
  \<^verbatim>\<open>epss_score\<close> and \<^verbatim>\<open>epss_percentile\<close> set to the formatted score and percentile of \<open>e\<close>;
  nothing else of the finding changes.
\<close>

theorem EnrichFindingData_matched:
  assumes "k < length fs" and "epssMap_of epssList (cve (fs ! k)) = Some e"
  shows "length (EnrichFindingData S epssList fs) = length fs \<and>
         cve_e e = cve (fs ! k) \<and> e \<in> set epssList \<and>
         epss_score (EnrichFindingData S epssList fs ! k) = score e \<and>
         epss_percentile (EnrichFindingData S epssList fs ! k) = percentile e \<and>
         body (EnrichFindingData S epssList fs ! k) =
           (body (fs ! k))(''epss_score'' \<mapsto> JString (S (score e)),
                           ''epss_percentile'' \<mapsto> JString (S (percentile e))) \<and>
         selector (EnrichFindingData S epssList fs ! k) = selector (fs ! k) \<and>
         id_f (EnrichFindingData S epssList fs ! k) = id_f (fs ! k) \<and>
         cve (EnrichFindingData S epssList fs ! k) = cve (fs ! k)"
  using assms epssMap_of_Some[OF assms(2)]
  by (simp add: EnrichFindingData_def Let_def enrich_finding_Some)

theorem EnrichFindingData_matched_witness:
  "0 < length sample_findings \<and>
   epssMap_of sample_epss (cve (sample_findings ! 0)) =
     Some \<lparr>cve_e = ''CVE-2024-0001'', score = 0.12345, percentile = 0.6789\<rparr> \<and>
   epss_score (EnrichFindingData sample_Sprintf5 sample_epss sample_findings ! 0) = 0.12345 \<and>
   epss_percentile (EnrichFindingData sample_Sprintf5 sample_epss sample_findings ! 0) = 0.6789 \<and>
   body (EnrichFindingData sample_Sprintf5 sample_epss sample_findings ! 0) =
     (body (sample_findings ! 0))(''epss_score'' \<mapsto> JString ''0.12345'',
                                  ''epss_percentile'' \<mapsto> JString ''0.67890'')"
proof -
  have len: "0 < length sample_findings" by (simp add: sample_findings_def)
  have hit: "epssMap_of sample_epss (cve (sample_findings ! 0)) =
     Some \<lparr>cve_e = ''CVE-2024-0001'', score = 0.12345, percentile = 0.6789\<rparr>"
    by (simp add: epssMap_of_def sample_epss_def sample_findings_def)
  from EnrichFindingData_matched [OF len hit, of sample_Sprintf5] len hit
  show ?thesis by (simp only: epss_data.select_convs sample_Sprintf5_values simp_thms)
qed

text \<open>
  C6. A finding whose identifier is not a key of the map is the same after the call, at the
  same place of a list of the same length; when the list comes from \<open>CreateFindingsRaw\<close>,
  its score and percentile are still the zero value they got there.
\<close>

theorem EnrichFindingData_unmatched:
  assumes "k < length fs" and "cve (fs ! k) \<notin> dom (epssMap_of epssList)"
  shows "length (EnrichFindingData S epssList fs) = length fs \<and>
         EnrichFindingData S epssList fs ! k = fs ! k \<and>
         (CreateFindingsRaw jq = Inr fs \<longrightarrow>
            epss_score (EnrichFindingData S epssList fs ! k) = 0 \<and>
            epss_percentile (EnrichFindingData S epssList fs ! k) = 0)"
proof -
  from assms(2) have none: "epssMap_of epssList (cve (fs ! k)) = None" by (simp add: domIff)
  have same: "EnrichFindingData S epssList fs ! k = fs ! k"
    using assms(1) none by (simp add: EnrichFindingData_def Let_def enrich_finding_None)
  have "CreateFindingsRaw jq = Inr fs \<longrightarrow> epss_score (fs ! k) = 0 \<and> epss_percentile (fs ! k) = 0"
    using CreateFindingsRaw_findings[of jq fs] assms(1) by blast
  with same show ?thesis by (simp add: EnrichFindingData_def Let_def)
qed

theorem EnrichFindingData_unmatched_witness:
  "1 < length sample_findings \<and>
   cve (sample_findings ! 1) \<notin> dom (epssMap_of sample_epss) \<and>
   CreateFindingsRaw (NewQuery sample_listing) = Inr sample_findings \<and>
   length (EnrichFindingData sample_Sprintf5 sample_epss sample_findings) = length sample_findings \<and>
   EnrichFindingData sample_Sprintf5 sample_epss sample_findings ! 1 = sample_findings ! 1 \<and>
   epss_score (EnrichFindingData sample_Sprintf5 sample_epss sample_findings ! 1) = 0 \<and>
   epss_percentile (EnrichFindingData sample_Sprintf5 sample_epss sample_findings ! 1) = 0"
proof -
  have len: "1 < length sample_findings" by (simp add: sample_findings_def)
  have miss: "cve (sample_findings ! 1) \<notin> dom (epssMap_of sample_epss)"
    by (simp add: dom_epssMap_of sample_epss_def sample_findings_def)
  from EnrichFindingData_unmatched [OF len miss, of sample_Sprintf5 "NewQuery sample_listing"]
    sample_listing_run len miss
  show ?thesis by blast
qed

text \<open>
  C9. Running \<open>EnrichFindingData\<close> on its own result with the same score list changes
  nothing: the list after the second run is the list after the first, and so are the two
  fields \<^verbatim>\<open>epss_score\<close> and \<^verbatim>\<open>epss_percentile\<close> of every body.
\<close>

theorem EnrichFindingData_idempotent:
  "EnrichFindingData S epssList (EnrichFindingData S epssList fs) = EnrichFindingData S epssList fs \<and>
   map (\<lambda>f. (body f ''epss_score'', body f ''epss_percentile''))
       (EnrichFindingData S epssList (EnrichFindingData S epssList fs)) =
   map (\<lambda>f. (body f ''epss_score'', body f ''epss_percentile''))
       (EnrichFindingData S epssList fs)"
  by (simp add: EnrichFindingData_def Let_def enrich_finding_idem)

section \<open>Properties of PatchFindingData\<close>

text \<open>
  One pass of the loop: whatever status code the response carries, the loop goes on with
  the rest of the list, the request recorded and one line printed.
\<close>

lemma PatchFindingData_step:
  assumes "Marshal (body f) = Some j" and "url_ok (finding_url flags (id_f f))"
    and "Do (net w) (put_request flags (id_f f) j) = (Some st, n')"
  shows "PatchFindingData Marshal url_ok Do (f # fs) flags w =
         PatchFindingData Marshal url_ok Do fs flags
           (w\<lparr>net := n', sent := sent w @ [put_request flags (id_f f) j],
              stdout := stdout w @ [report (id_f f) st]\<rparr>)"
  using assms by simp

lemma PatchFindingData_run:
  "\<exists>w'. PatchFindingData Marshal url_ok Do fs flags w =
          (if length (answered (responses Do (net w)
                 (requests_of Marshal flags (ready Marshal url_ok flags fs))))
               < length (ready Marshal url_ok flags fs)
           then Some Fatal_Do
           else if length (ready Marshal url_ok flags fs) = length fs then None
           else if Marshal (body (fs ! length (ready Marshal url_ok flags fs))) = None
           then Some Fatal_Marshal else Some Fatal_NewRequest, w') \<and>
        sent w' = sent w @
          take (Suc (length (answered (responses Do (net w)
                  (requests_of Marshal flags (ready Marshal url_ok flags fs))))))
            (requests_of Marshal flags (ready Marshal url_ok flags fs)) \<and>
        stdout w' = stdout w @
          map2 (\<lambda>f. report (id_f f)) (ready Marshal url_ok flags fs)
            (answered (responses Do (net w)
               (requests_of Marshal flags (ready Marshal url_ok flags fs))))"
proof (induction fs arbitrary: w)
  case Nil
  show ?case by (simp add: ready_def requests_of_def)
next
  case (Cons f fs)
  show ?case
  proof (cases "Marshal (body f)")
    case None
    then show ?thesis by (simp add: ready_def requests_of_def)
  next
    case (Some j)
    show ?thesis
    proof (cases "url_ok (finding_url flags (id_f f))")
      case False
      with Some show ?thesis by (simp add: ready_def requests_of_def)
    next
      case True
      let ?req = "put_request flags (id_f f) j"
      have rdy: "ready Marshal url_ok flags (f # fs) = f # ready Marshal url_ok flags fs"
        using Some True by (simp add: ready_def)
      have rq: "requests_of Marshal flags (f # ready Marshal url_ok flags fs) =
                ?req # requests_of Marshal flags (ready Marshal url_ok flags fs)"
        using Some by (simp add: requests_of_def)
      obtain resp n' where do: "Do (net w) ?req = (resp, n')" by (cases "Do (net w) ?req")
      show ?thesis
      proof (cases resp)
        case None
        with Some True do show ?thesis by (simp add: rdy rq)
      next
        case st: (Some st)
        let ?w1 = "w\<lparr>net := n', sent := sent w @ [?req],
                     stdout := stdout w @ [report (id_f f) st]\<rparr>"
        have step: "PatchFindingData Marshal url_ok Do (f # fs) flags w =
                    PatchFindingData Marshal url_ok Do fs flags ?w1"
          using Some True do st by (simp add: PatchFindingData_step)
        from Cons.IH[of ?w1] obtain w' where
          run: "PatchFindingData Marshal url_ok Do fs flags ?w1 =
          (if length (answered (responses Do n'
                 (requests_of Marshal flags (ready Marshal url_ok flags fs))))
               < length (ready Marshal url_ok flags fs)
           then Some Fatal_Do
           else if length (ready Marshal url_ok flags fs) = length fs then None
           else if Marshal (body (fs ! length (ready Marshal url_ok flags fs))) = None
           then Some Fatal_Marshal else Some Fatal_NewRequest, w')" and
          snt: "sent w' = sent ?w1 @
          take (Suc (length (answered (responses Do n'
                  (requests_of Marshal flags (ready Marshal url_ok flags fs))))))
            (requests_of Marshal flags (ready Marshal url_ok flags fs))" and
          out: "stdout w' = stdout ?w1 @
          map2 (\<lambda>f. report (id_f f)) (ready Marshal url_ok flags fs)
            (answered (responses Do n'
               (requests_of Marshal flags (ready Marshal url_ok flags fs))))"
          by auto
        show ?thesis
          using step run snt out do st by (intro exI[of _ w']) (simp add: rdy rq)
      qed
    qed
  qed
qed

text \<open>
  C7, as the code has it. Let \<open>ready\<close> be the findings at the head of the list whose body
  serialises and whose address is accepted, and \<open>statuses\<close> the status codes received up to
  the first error of the transport. The loop sends, in the order of the list, one \<^verbatim>\<open>PUT\<close>
  request for each finding of \<open>ready\<close> to \<^verbatim>\<open>http://ip:port/api/v2/findings/id\<close>, with the three
  headers and the serialised body, up to and including the first request on which the
  transport fails. It prints one line for each response received: the failure line with
  the status code whenever the code is not 200, the success line with the id otherwise;
  and it goes on to the next finding whatever the code is. The run ends without a fatal
  error exactly when every finding got a response; an error of the transport, of the
  serialisation or of the construction of a request ends it at that finding.
\<close>

theorem PatchFindingData_continues:
  "let url = (\<lambda>f. ''http://'' @ ip flags @ '':'' @ Itoa (port flags) @
                   ''/api/v2/findings/'' @ Itoa (id_f f));
       ready = takeWhile (\<lambda>f. Marshal (body f) \<noteq> None \<and> url_ok (url f)) fs;
       reqs = map (\<lambda>f. \<lparr>req_method = ''PUT'', req_url = url f,
                          req_header = [(''Authorization'', authToken flags),
                                        (''Accept'', ''application/json''),
                                        (''Content-Type'', ''application/json'')],
                          req_body = the (Marshal (body f))\<rparr>) ready;
       statuses = answered (responses Do (net w) reqs)
   in \<exists>w'. PatchFindingData Marshal url_ok Do fs flags w =
              (if length statuses < length ready then Some Fatal_Do
               else if length ready = length fs then None
               else if Marshal (body (fs ! length ready)) = None then Some Fatal_Marshal
               else Some Fatal_NewRequest, w') \<and>
            sent w' = sent w @ take (Suc (length statuses)) reqs \<and>
            stdout w' = stdout w @
              map2 (\<lambda>f StatusCode.
                      if StatusCode \<noteq> 200
                      then ''Updating finding failed with status code '' @
                           Itoa StatusCode @ [CHR 0x0A]
                      else ''Successfully updated finding with ID: '' @
                           Itoa (id_f f) @ [CHR 0x0A]) ready statuses"
  using PatchFindingData_run[of Marshal url_ok Do fs flags w]
  unfolding Let_def ready_def requests_of_def put_request_def finding_url_def report_def
    newline_def .

theorem PatchFindingData_continues_witness:
  "(\<exists>w'. PatchFindingData sample_Marshal sample_url_ok sample_Do three_findings default_flags
            \<lparr>net = 0, sent = [], stdout = []\<rparr> = (None, w') \<and>
      sent w' =
        [\<lparr>req_method = ''PUT'', req_url = ''http://localhost:8080/api/v2/findings/10'',
          req_header = [(''Authorization'', []), (''Accept'', ''application/json''),
                        (''Content-Type'', ''application/json'')],
          req_body = ''10''\<rparr>,
         \<lparr>req_method = ''PUT'', req_url = ''http://localhost:8080/api/v2/findings/11'',
          req_header = [(''Authorization'', []), (''Accept'', ''application/json''),
                        (''Content-Type'', ''application/json'')],
          req_body = ''11''\<rparr>,
         \<lparr>req_method = ''PUT'', req_url = ''http://localhost:8080/api/v2/findings/12'',
          req_header = [(''Authorization'', []), (''Accept'', ''application/json''),
                        (''Content-Type'', ''application/json'')],
          req_body = ''12''\<rparr>] \<and>
      stdout w' =
        [''Successfully updated finding with ID: 10'' @ [CHR 0x0A],
         ''Updating finding failed with status code 404'' @ [CHR 0x0A],
         ''Updating finding failed with status code 201'' @ [CHR 0x0A]]) \<and>
   (\<exists>w'. PatchFindingData sample_Marshal sample_url_ok dropping_Do three_findings default_flags
            \<lparr>net = 0, sent = [], stdout = []\<rparr> = (Some Fatal_Do, w') \<and>
      sent w' =
        [\<lparr>req_method = ''PUT'', req_url = ''http://localhost:8080/api/v2/findings/10'',
          req_header = [(''Authorization'', []), (''Accept'', ''application/json''),
                        (''Content-Type'', ''application/json'')],
          req_body = ''10''\<rparr>,
         \<lparr>req_method = ''PUT'', req_url = ''http://localhost:8080/api/v2/findings/11'',
          req_header = [(''Authorization'', []), (''Accept'', ''application/json''),
                        (''Content-Type'', ''application/json'')],
          req_body = ''11''\<rparr>] \<and>
      stdout w' = [''Successfully updated finding with ID: 10'' @ [CHR 0x0A]]) \<and>
   (\<exists>w'. PatchFindingData sample_Marshal sample_url_ok sample_Do bad_body_findings default_flags
            \<lparr>net = 0, sent = [], stdout = []\<rparr> = (Some Fatal_Marshal, w') \<and>
      sent w' =
        [\<lparr>req_method = ''PUT'', req_url = ''http://localhost:8080/api/v2/findings/10'',
          req_header = [(''Authorization'', []), (''Accept'', ''application/json''),
                        (''Content-Type'', ''application/json'')],
          req_body = ''10''\<rparr>] \<and>
      stdout w' = [''Successfully updated finding with ID: 10'' @ [CHR 0x0A]])"
proof -
  have i: "Itoa 10 = ''10''" "Itoa 11 = ''11''" "Itoa 12 = ''12''" "Itoa 8080 = ''8080''"
    "Itoa 404 = ''404''" "Itoa 201 = ''201''"
    by (simp_all add: Itoa_def digits.simps digit_char_def)
  from PatchFindingData_continues
         [where Marshal = sample_Marshal and url_ok = sample_url_ok and Do = sample_Do
            and fs = three_findings and flags = default_flags
            and w = "\<lparr>net = 0, sent = [], stdout = []\<rparr>"]
  have a: "\<exists>w'. PatchFindingData sample_Marshal sample_url_ok sample_Do three_findings default_flags
            \<lparr>net = 0, sent = [], stdout = []\<rparr> = (None, w') \<and>
      sent w' =
        [\<lparr>req_method = ''PUT'', req_url = ''http://localhost:8080/api/v2/findings/10'',
          req_header = [(''Authorization'', []), (''Accept'', ''application/json''),
                        (''Content-Type'', ''application/json'')],
          req_body = ''10''\<rparr>,
         \<lparr>req_method = ''PUT'', req_url = ''http://localhost:8080/api/v2/findings/11'',
          req_header = [(''Authorization'', []), (''Accept'', ''application/json''),
                        (''Content-Type'', ''application/json'')],
          req_body = ''11''\<rparr>,
         \<lparr>req_method = ''PUT'', req_url = ''http://localhost:8080/api/v2/findings/12'',
          req_header = [(''Authorization'', []), (''Accept'', ''application/json''),
                        (''Content-Type'', ''application/json'')],
          req_body = ''12''\<rparr>] \<and>
      stdout w' =
        [''Successfully updated finding with ID: 10'' @ [CHR 0x0A],
         ''Updating finding failed with status code 404'' @ [CHR 0x0A],
         ''Updating finding failed with status code 201'' @ [CHR 0x0A]]"
    by (simp add: Let_def three_findings_def sample_Do_def default_flags_def sample_Marshal_def
        sample_url_ok_def i)
  from PatchFindingData_continues
         [where Marshal = sample_Marshal and url_ok = sample_url_ok and Do = dropping_Do
            and fs = three_findings and flags = default_flags
            and w = "\<lparr>net = 0, sent = [], stdout = []\<rparr>"]
  have b: "\<exists>w'. PatchFindingData sample_Marshal sample_url_ok dropping_Do three_findings default_flags
            \<lparr>net = 0, sent = [], stdout = []\<rparr> = (Some Fatal_Do, w') \<and>
      sent w' =
        [\<lparr>req_method = ''PUT'', req_url = ''http://localhost:8080/api/v2/findings/10'',
          req_header = [(''Authorization'', []), (''Accept'', ''application/json''),
                        (''Content-Type'', ''application/json'')],
          req_body = ''10''\<rparr>,
         \<lparr>req_method = ''PUT'', req_url = ''http://localhost:8080/api/v2/findings/11'',
          req_header = [(''Authorization'', []), (''Accept'', ''application/json''),
                        (''Content-Type'', ''application/json'')],
          req_body = ''11''\<rparr>] \<and>
      stdout w' = [''Successfully updated finding with ID: 10'' @ [CHR 0x0A]]"
    by (simp add: Let_def three_findings_def dropping_Do_def default_flags_def sample_Marshal_def
        sample_url_ok_def i)
  from PatchFindingData_continues
         [where Marshal = sample_Marshal and url_ok = sample_url_ok and Do = sample_Do
            and fs = bad_body_findings and flags = default_flags
            and w = "\<lparr>net = 0, sent = [], stdout = []\<rparr>"]
  have c: "\<exists>w'. PatchFindingData sample_Marshal sample_url_ok sample_Do bad_body_findings default_flags
            \<lparr>net = 0, sent = [], stdout = []\<rparr> = (Some Fatal_Marshal, w') \<and>
      sent w' =
        [\<lparr>req_method = ''PUT'', req_url = ''http://localhost:8080/api/v2/findings/10'',
          req_header = [(''Authorization'', []), (''Accept'', ''application/json''),
                        (''Content-Type'', ''application/json'')],
          req_body = ''10''\<rparr>] \<and>
      stdout w' = [''Successfully updated finding with ID: 10'' @ [CHR 0x0A]]"
    by (simp add: Let_def bad_body_findings_def sample_Do_def default_flags_def
        sample_Marshal_def sample_url_ok_def i)
  from a b c show ?thesis by blast
qed

text \<open>
  C7 as stated fails: with three findings and a transport that fails on the second
  request, two requests are sent, one line is printed and the third finding is never
  dispatched.
\<close>

theorem PatchFindingData_stops_at_transport_error:
  "length three_findings = 3 \<and>
   PatchFindingData sample_Marshal sample_url_ok dropping_Do three_findings default_flags
     \<lparr>net = 0, sent = [], stdout = []\<rparr> =
   (Some Fatal_Do,
    \<lparr>net = 2,
      sent =
        [\<lparr>req_method = ''PUT'', req_url = ''http://localhost:8080/api/v2/findings/10'',
          req_header = [(''Authorization'', []), (''Accept'', ''application/json''),
                        (''Content-Type'', ''application/json'')],
          req_body = ''10''\<rparr>,
         \<lparr>req_method = ''PUT'', req_url = ''http://localhost:8080/api/v2/findings/11'',
          req_header = [(''Authorization'', []), (''Accept'', ''application/json''),
                        (''Content-Type'', ''application/json'')],
          req_body = ''11''\<rparr>],
      stdout = [''Successfully updated finding with ID: 10'' @ [CHR 0x0A]]\<rparr>)"
  by (simp add: three_findings_def sample_Marshal_def dropping_Do_def report_def Itoa_def
      digits.simps digit_char_def sample_url_ok_def finding_url_def default_flags_def
      put_request_def newline_def)

section \<open>Properties of main\<close>

text \<open>
  C3. On a command line that gives a token, a host and a port, \<^verbatim>\<open>main\<close> still works with
  the empty token, \<^verbatim>\<open>localhost\<close> and 8080, and the request of \<^verbatim>\<open>FetchFindings\<close> carries these.
\<close>

theorem main_ignores_command_line:
  "main_flags [''-t'', ''Token 0123456789abcdef'', ''-u'', ''dojo.example.org'', ''-p'', ''9000''] =
     \<lparr>authToken = [], ip = ''localhost'', port = 8080\<rparr> \<and>
   FetchFindings_request
     (main_flags [''-t'', ''Token 0123456789abcdef'', ''-u'', ''dojo.example.org'', ''-p'', ''9000'']) =
     \<lparr>req_method = ''GET'',
      req_url = ''http://localhost:8080/api/v2/findings/?active=true&limit=99999999'',
      req_header = [(''Authorization'', [])], req_body = []\<rparr>"
  by (simp add: main_flags_def flag_String_def flag_Int_def deref_string_def deref_int_def
      FetchFindings_request_def Itoa_def digits.simps digit_char_def)

end
